theory Spec2Isabelle
  imports Main "HOL-Library.Multiset"
begin

section \<open>Values of the Python program\<close>

text \<open>
  The program is the single module \<^verbatim>\<open>main.py\<close>. Strings are \<^typ>\<open>string\<close>; a character
  stands for a code point below 256. Every exception the module can meet is a constructor
  of \<open>exn\<close>; a computation that may raise returns \<open>exn + 'a\<close> with \<open>Inl\<close> the exception.
\<close>

datatype exn =
    NameError
  | IndexError
  | ValueError
  | ParseError string
  | FileNotFoundError
  | RequestException string
  | OtherException string

text \<open>Decoded JSON, as \<^verbatim>\<open>response.json()\<close> returns it.\<close>

datatype json_value =
    JNull
  | JBool bool
  | JNum int
  | JStr string
  | JArr "json_value list"
  | JObj "(string \<times> json_value) list"

subsection \<open>Strings: \<^verbatim>\<open>str.strip()\<close> and \<^verbatim>\<open>str.split('/')\<close>\<close>

text \<open>
  The code points below 256 for which \<^verbatim>\<open>str.isspace()\<close> holds: 9 to 13, 28 to 32,
  133 and 160. \<^verbatim>\<open>strip()\<close> without argument removes them from both ends.
\<close>

definition isspace :: "char \<Rightarrow> bool" where
  "isspace c \<longleftrightarrow> c \<in> set [CHR 0x09, CHR 0x0A, CHR 0x0B, CHR 0x0C, CHR 0x0D,
      CHR 0x1C, CHR 0x1D, CHR 0x1E, CHR 0x1F, CHR 0x20, CHR 0x85, CHR 0xA0]"

definition strip :: "string \<Rightarrow> string" where
  "strip s = rev (dropWhile isspace (rev (dropWhile isspace s)))"

text \<open>
  \<^verbatim>\<open>s.split(sep)\<close> for a one-character separator: the pieces between the separators, so
  always at least one piece. \<open>cur\<close> is the piece being read, reversed.
\<close>

fun split_from :: "char \<Rightarrow> string \<Rightarrow> string \<Rightarrow> string list" where
  "split_from sep cur [] = [rev cur]"
| "split_from sep cur (c # cs) =
     (if c = sep then rev cur # split_from sep [] cs else split_from sep (c # cur) cs)"

definition split :: "string \<Rightarrow> char \<Rightarrow> string list" where
  "split s sep = split_from sep [] s"

text \<open>Indexing a list with a non-negative literal raises IndexError out of range.\<close>

definition index :: "'a list \<Rightarrow> nat \<Rightarrow> exn + 'a" where
  "index xs i = (if i < length xs then Inr (xs ! i) else Inl IndexError)"

subsection \<open>\<^verbatim>\<open>random.sample\<close>\<close>

text \<open>
  The generator is explicit: \<open>rnd c\<close> is the raw output of its \<open>c\<close>-th call, and
  \<^verbatim>\<open>randbelow(m)\<close> reduces it below \<open>m\<close>. \<open>sample_loop\<close> is the selection loop of
  \<^verbatim>\<open>random.sample\<close> over the pool:
  \<^verbatim>\<open>
  for i in range(k):
      j = randbelow(n - i)
      result[i] = pool[j]
      pool[j] = pool[n - i - 1]
  \<close>
  with \<open>m\<close> the iterations still to run. For a population above a threshold (21 when
  \<open>k\<close> is at most 5, more for larger \<open>k\<close>) the library instead keeps the set of chosen
  positions and draws again on a collision; it returns the elements at \<open>k\<close> distinct
  positions, in selection order, there as well. The pool loop stands for both here; it is
  the branch that runs whenever \<open>k = n\<close>.
\<close>

definition randbelow :: "(nat \<Rightarrow> nat) \<Rightarrow> nat \<Rightarrow> nat \<Rightarrow> nat" where
  "randbelow rnd c m = rnd c mod m"

fun sample_loop :: "(nat \<Rightarrow> nat) \<Rightarrow> nat \<Rightarrow> nat \<Rightarrow> 'a list \<Rightarrow> 'a list" where
  "sample_loop rnd i 0 pool = []"
| "sample_loop rnd i (Suc m) pool =
     (let n = length pool;
          j = randbelow rnd i (n - i)
      in pool ! j # sample_loop rnd (Suc i) m (pool[j := pool ! (n - i - 1)]))"

definition random_sample :: "(nat \<Rightarrow> nat) \<Rightarrow> 'a list \<Rightarrow> int \<Rightarrow> exn + 'a list" where
  "random_sample rnd population k =
     (if \<not> (0 \<le> k \<and> k \<le> int (length population)) then Inl ValueError
      else Inr (sample_loop rnd 0 (nat k) population))"

subsection \<open>XML elements\<close>

text \<open>
  An element of \<^verbatim>\<open>xml.etree.ElementTree\<close>: its tag, the text before its first child
  (\<^verbatim>\<open>None\<close> when there is none) and its children in document order.
\<close>

datatype element = Element (tag: string) (elem_text: "string option") (children: "element list")

text \<open>\<^verbatim>\<open>e.iter(t)\<close>: the element and its descendants with tag \<open>t\<close>, in document order.\<close>

fun iter :: "string \<Rightarrow> element \<Rightarrow> element list" where
  "iter t (Element g tx cs) =
     (if g = t then [Element g tx cs] else []) @ concat (map (iter t) cs)"

text \<open>\<^verbatim>\<open>e.findall('.//t')\<close>: what \<^verbatim>\<open>e.iter(t)\<close> yields, \<open>e\<close> itself left out.\<close>

definition findall_descendants :: "string \<Rightarrow> element \<Rightarrow> element list" where
  "findall_descendants t e = concat (map (iter t) (children e))"

text \<open>\<^verbatim>\<open>e.find(t)\<close>: the first child with tag \<open>t\<close>, or \<^verbatim>\<open>None\<close>.\<close>

definition find_child :: "string \<Rightarrow> element \<Rightarrow> element option" where
  "find_child t e = List.find (\<lambda>c. tag c = t) (children e)"

section \<open>Logging\<close>

text \<open>
  The messages are Chinese f-strings; each is a constructor here, carrying the values the
  f-string interpolates.
\<close>

datatype message =
    MissingApiKey
  | SubmittedToBing nat
  | SubmittedStatus int
  | FailedStatus int
  | NetworkError exn
  | SubmitError exn

datatype body = Decoded json_value | Raw string

record result =
  status :: string
  message :: message
  response :: "body option"

datatype level = INFO | WARNING | ERROR

datatype log_msg =
    ParsedCount nat
  | XmlParseError exn
  | FileNotFound string
  | ParseFailure exn
  | NoUrlFound
  | MissingKeys
  | SiteUrl string
  | SubmittingToBing
  | SubmittingToIndexNow
  | SubmitSucceeded result
  | SubmitFailed result

type_synonym log = "(level \<times> log_msg) list"

text \<open>
  The methods of \<^verbatim>\<open>SitemapParser\<close> read the module global \<^verbatim>\<open>logger\<close>. The module
  only annotates that name (\<^verbatim>\<open>logger:logging.Logger\<close>, which binds nothing), and
  \<^verbatim>\<open>main\<close> assigns a local variable of the same name without a \<^verbatim>\<open>global\<close>
  statement. So the global is bound only if whoever imports the module binds it; \<open>bound\<close>
  says whether it is. Reading an unbound global raises NameError.
\<close>

definition global_logger :: "bool \<Rightarrow> level \<Rightarrow> log_msg \<Rightarrow> log \<Rightarrow> exn + log" where
  "global_logger bound lv m lg = (if bound then Inr (lg @ [(lv, m)]) else Inl NameError)"

section \<open>SitemapParser\<close>

record SitemapParser =
  sitemap_file :: string

text \<open>The file system and the XML parser: what \<^verbatim>\<open>ET.parse(path).getroot()\<close> gives.\<close>

type_synonym files = "string \<Rightarrow> exn + element"

text \<open>One iteration of the loop over the items: \<open>urls\<close> is the list built so far.\<close>

definition append_link :: "element \<Rightarrow> string list \<Rightarrow> string list" where
  "append_link item urls =
     (case find_child ''link'' item of
        None \<Rightarrow> urls
      | Some link_element \<Rightarrow>
          (case elem_text link_element of
             None \<Rightarrow> urls
           | Some t \<Rightarrow> if t \<noteq> [] then urls @ [strip t] else urls))"

definition extract_links :: "element \<Rightarrow> string list" where
  "extract_links root = fold append_link (findall_descendants ''item'' root) []"

text \<open>The body of the \<^verbatim>\<open>try\<close> statement.\<close>

definition parse_body :: "bool \<Rightarrow> files \<Rightarrow> SitemapParser \<Rightarrow> log \<Rightarrow> exn + (string list \<times> log)" where
  "parse_body bound fs self lg =
     (case fs (sitemap_file self) of
        Inl e \<Rightarrow> Inl e
      | Inr root \<Rightarrow>
          (let urls = extract_links root in
           case global_logger bound INFO (ParsedCount (length urls)) lg of
             Inl e \<Rightarrow> Inl e
           | Inr lg' \<Rightarrow> Inr (urls, lg')))"

text \<open>A handler: log the cause with the global logger, then return the empty list.\<close>

definition parse_handler :: "bool \<Rightarrow> log_msg \<Rightarrow> log \<Rightarrow> exn + (string list \<times> log)" where
  "parse_handler bound m lg =
     (case global_logger bound ERROR m lg of
        Inl e \<Rightarrow> Inl e
      | Inr lg' \<Rightarrow> Inr ([], lg'))"

definition parse_rss_sitemap :: "bool \<Rightarrow> files \<Rightarrow> SitemapParser \<Rightarrow> log \<Rightarrow> exn + (string list \<times> log)" where
  "parse_rss_sitemap bound fs self lg =
     (case parse_body bound fs self lg of
        Inr r \<Rightarrow> Inr r
      | Inl (ParseError m) \<Rightarrow> parse_handler bound (XmlParseError (ParseError m)) lg
      | Inl FileNotFoundError \<Rightarrow> parse_handler bound (FileNotFound (sitemap_file self)) lg
      | Inl e \<Rightarrow> parse_handler bound (ParseFailure e) lg)"

section \<open>The submitters\<close>

record submitter =
  api_key :: "string option"
  base_url :: string
  headers :: "(string \<times> string) list"

datatype payload =
    BingData (siteUrl: string) (urlList: "string list")
  | IndexNowData (host: string) (key: string) (keyLocation: string) (urlList: "string list")

record request =
  url :: string
  req_headers :: "(string \<times> string) list"
  data :: payload
  timeout :: nat

record http_response =
  status_code :: int
  resp_text :: string
  resp_json :: "exn + json_value"

text \<open>The network: what \<^verbatim>\<open>session.post\<close> returns or raises for a request.\<close>

type_synonym network = "request \<Rightarrow> exn + http_response"

definition BingSubmitter :: "string option \<Rightarrow> submitter" where
  "BingSubmitter k =
     \<lparr>api_key = k,
      base_url = ''https://ssl.bing.com/webmaster/api.svc/json/SubmitUrlbatch'',
      headers = [(''Content-Type'', ''application/json; charset=utf-8''),
                 (''Host'', ''ssl.bing.com'')]\<rparr>"

definition IndexNowSubmitter :: "string option \<Rightarrow> submitter" where
  "IndexNowSubmitter k =
     \<lparr>api_key = k,
      base_url = ''https://api.indexnow.org/IndexNow'',
      headers = [(''Content-Type'', ''application/json; charset=utf-8''),
                 (''Host'', ''api.indexnow.org'')]\<rparr>"

text \<open>
  The two \<^verbatim>\<open>except\<close> clauses of both \<^verbatim>\<open>submit_urls\<close>:
  \<^verbatim>\<open>requests.RequestException\<close> first, then every other exception.
\<close>

definition submit_handler :: "exn \<Rightarrow> result" where
  "submit_handler e =
     (case e of
        RequestException m \<Rightarrow> \<lparr>status = ''error'', message = NetworkError e, response = None\<rparr>
      | _ \<Rightarrow> \<lparr>status = ''error'', message = SubmitError e, response = None\<rparr>)"

text \<open>
  Both \<^verbatim>\<open>submit_urls\<close> return the result together with the requests they posted, in
  order.
\<close>

definition bing_submit_urls ::
  "submitter \<Rightarrow> (nat \<Rightarrow> nat) \<Rightarrow> network \<Rightarrow> string list \<Rightarrow> string \<Rightarrow> int \<Rightarrow> request list \<times> result" where
  "bing_submit_urls self rnd post urls site_url limit =
     (case api_key self of
        None \<Rightarrow> ([], \<lparr>status = ''error'', message = MissingApiKey, response = None\<rparr>)
      | Some k \<Rightarrow>
          if k = [] then ([], \<lparr>status = ''error'', message = MissingApiKey, response = None\<rparr>)
          else
            (case random_sample rnd urls (min (int (length urls)) limit) of
               Inl e \<Rightarrow> ([], submit_handler e)
             | Inr chosen \<Rightarrow>
                 (let req = \<lparr>url = base_url self @ ''?apikey='' @ k,
                             req_headers = headers self,
                             data = BingData site_url chosen,
                             timeout = 20\<rparr>
                  in case post req of
                       Inl e \<Rightarrow> ([req], submit_handler e)
                     | Inr r \<Rightarrow>
                         if status_code r = 200 then
                           (case resp_json r of
                              Inl e \<Rightarrow> ([req], submit_handler e)
                            | Inr j \<Rightarrow>
                                ([req], \<lparr>status = ''success'',
                                         message = SubmittedToBing (length urls),
                                         response = Some (Decoded j)\<rparr>))
                         else
                           ([req], \<lparr>status = ''error'',
                                    message = FailedStatus (status_code r),
                                    response = Some (Raw (resp_text r))\<rparr>))))"

definition indexnow_submit_urls ::
  "submitter \<Rightarrow> network \<Rightarrow> string list \<Rightarrow> string \<Rightarrow> request list \<times> result" where
  "indexnow_submit_urls self post urls site_url =
     (case api_key self of
        None \<Rightarrow> ([], \<lparr>status = ''error'', message = MissingApiKey, response = None\<rparr>)
      | Some k \<Rightarrow>
          if k = [] then ([], \<lparr>status = ''error'', message = MissingApiKey, response = None\<rparr>)
          else
            (let req = \<lparr>url = base_url self,
                        req_headers = headers self,
                        data = IndexNowData site_url k (site_url @ ''/'' @ k @ ''.txt'') urls,
                        timeout = 20\<rparr>
             in case post req of
                  Inl e \<Rightarrow> ([req], submit_handler e)
                | Inr r \<Rightarrow>
                    if status_code r \<in> set [200, 202] then
                      ([req], \<lparr>status = ''success'',
                               message = SubmittedStatus (status_code r),
                               response = Some (Raw (resp_text r))\<rparr>)
                    else
                      ([req], \<lparr>status = ''error'',
                               message = FailedStatus (status_code r),
                               response = Some (Raw (resp_text r))\<rparr>)))"

section \<open>main\<close>

record environ =
  BING_API_KEY :: "string option"
  INDEXNOW_API_KEY :: "string option"

definition truthy :: "string option \<Rightarrow> bool" where
  "truthy k = (case k of None \<Rightarrow> False | Some s \<Rightarrow> s \<noteq> [])"

text \<open>
  \<^verbatim>\<open>urls[0].split('/')[0] + '//' + urls[0].split('/')[2]\<close>, left to right: each index
  may raise IndexError.
\<close>

definition site_origin :: "string list \<Rightarrow> exn + string" where
  "site_origin urls =
     (case index urls 0 of
        Inl e \<Rightarrow> Inl e
      | Inr u0 \<Rightarrow>
          (case index (split u0 CHR ''/'') 0 of
             Inl e \<Rightarrow> Inl e
           | Inr scheme \<Rightarrow>
               (case index urls 0 of
                  Inl e \<Rightarrow> Inl e
                | Inr u0' \<Rightarrow>
                    (case index (split u0' CHR ''/'') 2 of
                       Inl e \<Rightarrow> Inl e
                     | Inr h \<Rightarrow> Inr (scheme @ ''//'' @ h)))))"

text \<open>The \<^verbatim>\<open>match result['status']\<close> statement: one log line, or none.\<close>

definition log_result :: "result \<Rightarrow> log \<Rightarrow> log" where
  "log_result r lg =
     (if status r = ''success'' then lg @ [(INFO, SubmitSucceeded r)]
      else if status r = ''error'' then lg @ [(ERROR, SubmitFailed r)]
      else lg)"

text \<open>
  \<^verbatim>\<open>main\<close> after the arguments are parsed and its local logger is set up. The local
  logger is bound, so the log calls of \<^verbatim>\<open>main\<close> itself cannot fail; \<open>bound\<close> is the
  state of the module global that \<^verbatim>\<open>parse_rss_sitemap\<close> reads. The value is the log
  and the requests posted, or the exception that leaves \<^verbatim>\<open>main\<close>.
\<close>

definition main ::
  "bool \<Rightarrow> files \<Rightarrow> environ \<Rightarrow> (nat \<Rightarrow> nat) \<Rightarrow> network \<Rightarrow> string \<Rightarrow> exn + (log \<times> request list)" where
  "main bound fs env rnd post path =
     (case parse_rss_sitemap bound fs \<lparr>sitemap_file = path\<rparr> [] of
        Inl e \<Rightarrow> Inl e
      | Inr (urls, lg) \<Rightarrow>
          if urls = [] then Inr (lg @ [(WARNING, NoUrlFound)], [])
          else if \<not> (truthy (BING_API_KEY env) \<and> truthy (INDEXNOW_API_KEY env))
          then Inr (lg @ [(ERROR, MissingKeys)], [])
          else
            (case site_origin urls of
               Inl e \<Rightarrow> Inl e
             | Inr site_url \<Rightarrow>
                 (let lg1 = lg @ [(INFO, SiteUrl site_url), (INFO, SubmittingToBing)];
                      (sent1, r1) = bing_submit_urls (BingSubmitter (BING_API_KEY env))
                                      rnd post urls site_url 10;
                      lg2 = log_result r1 lg1 @ [(INFO, SubmittingToIndexNow)];
                      (sent2, r2) = indexnow_submit_urls
                                      (IndexNowSubmitter (INDEXNOW_API_KEY env))
                                      post urls site_url;
                      lg3 = log_result r2 lg2
                  in Inr (lg3, sent1 @ sent2))))"

text \<open>
  Running the module as a script: nothing binds the global \<^verbatim>\<open>logger\<close> before
  \<^verbatim>\<open>main\<close> is called.
\<close>

definition run_script ::
  "files \<Rightarrow> environ \<Rightarrow> (nat \<Rightarrow> nat) \<Rightarrow> network \<Rightarrow> string \<Rightarrow> exn + (log \<times> request list)" where
  "run_script = main False"

section \<open>Derived notions and example inputs\<close>

text \<open>
  The raw text of an item's link child, as the loop reads it: the text of the first child
  tagged \<^verbatim>\<open>link\<close>, or nothing. \<open>has_link_text\<close> is the condition of the loop's
  \<^verbatim>\<open>if\<close>.
\<close>

definition link_text :: "element \<Rightarrow> string option" where
  "link_text item =
     (case find_child ''link'' item of None \<Rightarrow> None | Some link_element \<Rightarrow> elem_text link_element)"

definition has_link_text :: "element \<Rightarrow> bool" where
  "has_link_text item = (case link_text item of None \<Rightarrow> False | Some t \<Rightarrow> t \<noteq> [])"



text \<open>A generator whose every raw output is 1, and three networks.\<close>

definition draws_one :: "nat \<Rightarrow> nat" where
  "draws_one c = 1"

definition net_down :: network where
  "net_down req = Inl (RequestException ''connection refused'')"

definition net_200_html :: network where
  "net_200_html req =
     Inr \<lparr>status_code = 200, resp_text = ''<html></html>'',
          resp_json = Inl (RequestException ''Expecting value'')\<rparr>"

definition net_404 :: network where
  "net_404 req =
     Inr \<lparr>status_code = 404, resp_text = ''Not Found'',
          resp_json = Inl (RequestException ''Expecting value'')\<rparr>"

text \<open>
  Three sitemaps: a well-formed one with two items, one whose only link holds two blanks,
  and one whose only link holds a host name without scheme.
\<close>

definition example_rss :: element where
  "example_rss =
     Element ''rss'' None
       [Element ''channel'' None
          [Element ''title'' (Some ''Example'') [],
           Element ''item'' None
             [Element ''title'' (Some ''First'') [],
              Element ''link'' (Some ('' https://example.com/a/b'' @ [CHR 0x0A])) []],
           Element ''item'' None
             [Element ''link'' (Some ''https://example.com/c'') []]]]"

definition blank_link_rss :: element where
  "blank_link_rss =
     Element ''rss'' None
       [Element ''channel'' None
          [Element ''item'' None [Element ''link'' (Some ''  '') []]]]"

definition bare_host_rss :: element where
  "bare_host_rss =
     Element ''rss'' None
       [Element ''channel'' None
          [Element ''item'' None [Element ''link'' (Some ''example.com'') []]]]"

definition example_files :: files where
  "example_files p =
     (if p = ''./sitemap.xml'' then Inr example_rss
      else if p = ''./blank.xml'' then Inr blank_link_rss
      else if p = ''./bare.xml'' then Inr bare_host_rss
      else if p = ''./broken.xml'' then Inl (ParseError ''mismatched tag'')
      else Inl FileNotFoundError)"

definition example_env :: environ where
  "example_env = \<lparr>BING_API_KEY = Some ''bingkey'', INDEXNOW_API_KEY = Some ''nowkey''\<rparr>"

section \<open>The sampling loop\<close>

lemma length_sample_loop: "length (sample_loop rnd i m pool) = m"
  by (induction m arbitrary: i pool) (simp_all add: Let_def)

text \<open>
  One iteration keeps the elements of the live part \<open>pool[0 : l]\<close>: the chosen one goes to
  the result, the last one into its place.
\<close>

lemma mset_take_swap_out:
  assumes "j < l" "l \<le> length pool"
  shows "add_mset (pool ! j) (mset (take (l - 1) (pool[j := pool ! (l - 1)]))) = mset (take l pool)"
proof -
  from assms have l: "l - 1 < length pool" "Suc (l - 1) = l" by auto
  have tk: "take l pool = take (l - 1) pool @ [pool ! (l - 1)]"
    using take_Suc_conv_app_nth [OF l(1)] l(2) by simp
  show ?thesis
  proof (cases "j = l - 1")
    case True
    then show ?thesis by (simp add: tk)
  next
    case False
    with assms have jl: "j < l - 1" by simp
    then have len: "j < length (take (l - 1) pool)" using assms by simp
    then have upd: "mset ((take (l - 1) pool)[j := pool ! (l - 1)]) =
        add_mset (pool ! (l - 1)) (mset (take (l - 1) pool) - {#take (l - 1) pool ! j#})"
      by (rule mset_update)
    have nth: "take (l - 1) pool ! j = pool ! j" using jl by simp
    have "take (l - 1) pool ! j \<in> set (take (l - 1) pool)"
      using len by (rule nth_mem)
    then have "pool ! j \<in> set (take (l - 1) pool)"
      unfolding nth .
    then have "pool ! j \<in># mset (take (l - 1) pool)"
      by simp
    with upd nth show ?thesis
      by (simp add: tk take_update_swap)
  qed
qed

lemma mset_sample_loop:
  "i + m \<le> length pool \<Longrightarrow>
   mset (sample_loop rnd i m pool) \<subseteq># mset (take (length pool - i) pool)"
proof (induction m arbitrary: i pool)
  case 0
  then show ?case by simp
next
  case (Suc m)
  let ?l = "length pool - i"
  let ?j = "randbelow rnd i ?l"
  let ?pool' = "pool[?j := pool ! (?l - 1)]"
  from Suc.prems have l: "0 < ?l" "?l \<le> length pool" by auto
  then have j: "?j < ?l" by (simp add: randbelow_def)
  have "mset (sample_loop rnd (Suc i) m ?pool') \<subseteq># mset (take (length ?pool' - Suc i) ?pool')"
    using Suc.prems by (intro Suc.IH) simp
  then have "mset (sample_loop rnd (Suc i) m ?pool') \<subseteq># mset (take (?l - 1) ?pool')"
    by simp
  then have "add_mset (pool ! ?j) (mset (sample_loop rnd (Suc i) m ?pool'))
      \<subseteq># add_mset (pool ! ?j) (mset (take (?l - 1) ?pool'))"
    by simp
  also have "\<dots> = mset (take ?l pool)"
    using j l(2) by (rule mset_take_swap_out)
  finally show ?case by (simp add: Let_def)
qed

lemma random_sample_mset:
  "random_sample rnd xs k = Inr ys \<Longrightarrow> mset ys \<subseteq># mset xs \<and> int (length ys) = k"
  using mset_sample_loop [of 0 "nat k" xs rnd]
  by (auto simp: random_sample_def length_sample_loop split: if_splits)

lemma random_sample_all:
  assumes "random_sample rnd xs (int (length xs)) = Inr ys"
  shows "mset ys = mset xs"
proof -
  from random_sample_mset [OF assms]
  have "mset ys \<subseteq># mset xs" "size (mset ys) = size (mset xs)"
    by auto
  then show ?thesis
    using mset_subset_size subset_mset.less_le by (metis less_irrefl)
qed










section \<open>What the submitters post\<close>

lemma bing_sent_cases:
  "fst (bing_submit_urls self rnd post urls site_url limit) =
     (case api_key self of
        None \<Rightarrow> []
      | Some k \<Rightarrow>
          if k = [] then []
          else (case random_sample rnd urls (min (int (length urls)) limit) of
                  Inl e \<Rightarrow> []
                | Inr chosen \<Rightarrow>
                    [\<lparr>url = base_url self @ ''?apikey='' @ k, req_headers = headers self,
                      data = BingData site_url chosen, timeout = 20\<rparr>]))"
  by (simp add: bing_submit_urls_def Let_def split: option.splits sum.splits)

lemma indexnow_sent_cases:
  "fst (indexnow_submit_urls self post urls site_url) =
     (case api_key self of
        None \<Rightarrow> []
      | Some k \<Rightarrow>
          if k = [] then []
          else [\<lparr>url = base_url self, req_headers = headers self,
                 data = IndexNowData site_url k (site_url @ ''/'' @ k @ ''.txt'') urls,
                 timeout = 20\<rparr>])"
  by (simp add: indexnow_submit_urls_def Let_def split: option.splits sum.splits)


section \<open>The parser and the site origin\<close>

lemma append_link_eq:
  "append_link item urls =
     urls @ (if has_link_text item then [strip (the (link_text item))] else [])"
  by (simp add: append_link_def has_link_text_def link_text_def split: option.splits)

lemma fold_append_link:
  "fold append_link items urls =
     urls @ map (\<lambda>item. strip (the (link_text item))) (filter has_link_text items)"
  by (induction items arbitrary: urls) (simp_all add: append_link_eq)

lemma extract_links_eq:
  "extract_links root =
     map (\<lambda>item. strip (the (link_text item)))
       (filter has_link_text (findall_descendants ''item'' root))"
  by (simp add: extract_links_def fold_append_link)

lemma strip_empty_iff: "strip t = [] \<longleftrightarrow> (\<forall>c \<in> set t. isspace c)"
proof
  assume "strip t = []"
  then have "dropWhile isspace (rev (dropWhile isspace t)) = []"
    by (simp add: strip_def)
  then have "\<forall>c \<in> set (dropWhile isspace t). isspace c"
    by simp
  then have "dropWhile isspace t = []"
    by (metis hd_dropWhile hd_in_set)
  then show "\<forall>c \<in> set t. isspace c"
    by simp
next
  assume "\<forall>c \<in> set t. isspace c"
  then have dw: "dropWhile isspace t = []" by simp
  show "strip t = []" unfolding strip_def dw by simp
qed

lemma parse_unbound_raises: "parse_rss_sitemap False fs self lg = Inl NameError"
  by (simp add: parse_rss_sitemap_def parse_body_def parse_handler_def global_logger_def
      Let_def split: sum.splits exn.splits)

lemma parse_bound_returns:
  "parse_rss_sitemap True fs self lg =
     Inr (case fs (sitemap_file self) of
            Inr root \<Rightarrow>
              (extract_links root, lg @ [(INFO, ParsedCount (length (extract_links root)))])
          | Inl (ParseError m) \<Rightarrow> ([], lg @ [(ERROR, XmlParseError (ParseError m))])
          | Inl FileNotFoundError \<Rightarrow> ([], lg @ [(ERROR, FileNotFound (sitemap_file self))])
          | Inl e \<Rightarrow> ([], lg @ [(ERROR, ParseFailure e)]))"
  by (simp add: parse_rss_sitemap_def parse_body_def parse_handler_def global_logger_def
      Let_def split: sum.splits exn.splits)

lemma example_items:
  "findall_descendants ''item'' example_rss =
     [Element ''item'' None
        [Element ''title'' (Some ''First'') [],
         Element ''link'' (Some ('' https://example.com/a/b'' @ [CHR 0x0A])) []],
      Element ''item'' None [Element ''link'' (Some ''https://example.com/c'') []]]"
  by (simp add: findall_descendants_def example_rss_def)

lemma example_links:
  "extract_links example_rss = [''https://example.com/a/b'', ''https://example.com/c'']"
  by (simp add: extract_links_def example_items append_link_def find_child_def strip_def
      isspace_def)

lemma blank_links: "extract_links blank_link_rss = ['''']"
  by (simp add: extract_links_def findall_descendants_def blank_link_rss_def append_link_def
      find_child_def strip_def isspace_def)

lemma bare_links: "extract_links bare_host_rss = [''example.com'']"
  by (simp add: extract_links_def findall_descendants_def bare_host_rss_def append_link_def
      find_child_def strip_def isspace_def)

lemma split_from_no_sep: "sep \<notin> set s \<Longrightarrow> split_from sep cur s = [rev cur @ s]"
  by (induction s arbitrary: cur) auto

lemma split_from_sep:
  "sep \<notin> set s \<Longrightarrow> split_from sep cur (s @ sep # t) = (rev cur @ s) # split_from sep [] t"
  by (induction s arbitrary: cur) auto

lemma split_origin:
  assumes "CHR ''/'' \<notin> set scheme" "CHR ''/'' \<notin> set h" "path = [] \<or> hd path = CHR ''/''"
  shows "\<exists>rest. split (scheme @ ''//'' @ h @ path) CHR ''/'' = scheme # [] # h # rest"
proof -
  have 1: "split (scheme @ ''//'' @ h @ path) CHR ''/'' =
      scheme # [] # split_from CHR ''/'' [] (h @ path)"
    using split_from_sep [OF assms(1), of "[]" "CHR ''/'' # h @ path"]
    by (simp add: split_def)
  from assms(3) show ?thesis
  proof
    assume "path = []"
    with 1 split_from_no_sep [OF assms(2), of "[]"] show ?thesis by simp
  next
    assume "hd path = CHR ''/''"
    show ?thesis
    proof (cases path)
      case Nil
      with 1 split_from_no_sep [OF assms(2), of "[]"] show ?thesis by simp
    next
      case (Cons c p)
      with \<open>hd path = CHR ''/''\<close> have "path = CHR ''/'' # p" by simp
      with 1 split_from_sep [OF assms(2), of "[]" p] show ?thesis by simp
    qed
  qed
qed

lemma site_origin_shape:
  assumes "CHR ''/'' \<notin> set scheme" "CHR ''/'' \<notin> set h" "path = [] \<or> hd path = CHR ''/''"
  shows "site_origin ((scheme @ ''//'' @ h @ path) # rest) = Inr (scheme @ ''//'' @ h)"
proof -
  from split_origin [OF assms] obtain ps
    where "split (scheme @ ''//'' @ h @ path) CHR ''/'' = scheme # [] # h # ps" ..
  then show ?thesis by (simp add: site_origin_def index_def)
qed

lemma site_origin_example:
  "site_origin (''https://example.com/a/b'' # rest) = Inr ''https://example.com''"
  using site_origin_shape [of "''https:''" "''example.com''" "''/a/b''" rest] by simp

lemma site_origin_bare: "site_origin [''example.com''] = Inl IndexError"
  by (simp add: site_origin_def index_def split_def)

lemma site_origin_blank: "site_origin [''''] = Inl IndexError"
  by (simp add: site_origin_def index_def split_def)

section \<open>Claims about the submitters\<close>




text \<open>
  C2. When the configured key is absent (\<^verbatim>\<open>None\<close> or empty), both submitters return the
  error result at once and post nothing, whatever the network would have answered.
\<close>

theorem missing_key_no_request:
  "\<not> truthy (api_key self) \<Longrightarrow>
     bing_submit_urls self rnd post urls site_url limit =
       ([], \<lparr>status = ''error'', message = MissingApiKey, response = None\<rparr>)
   \<and> indexnow_submit_urls self post urls site_url =
       ([], \<lparr>status = ''error'', message = MissingApiKey, response = None\<rparr>)"
  by (simp add: truthy_def bing_submit_urls_def indexnow_submit_urls_def split: option.splits)

theorem missing_key_no_request_witness:
  "\<not> truthy (api_key (BingSubmitter (Some '''')))
   \<and> bing_submit_urls (BingSubmitter (Some '''')) draws_one net_200_html [''a''] ''s'' 10 =
       ([], \<lparr>status = ''error'', message = MissingApiKey, response = None\<rparr>)
   \<and> indexnow_submit_urls (BingSubmitter (Some '''')) net_200_html [''a''] ''s'' =
       ([], \<lparr>status = ''error'', message = MissingApiKey, response = None\<rparr>)"
proof -
  have h: "\<not> truthy (api_key (BingSubmitter (Some '''')))"
    by (simp add: truthy_def BingSubmitter_def)
  from h missing_key_no_request [OF h] show ?thesis by simp
qed

text \<open>
  C3, as amended. For a call that posts a request and gets a response: the batch submitter
  returns success with the decoded body when the status is 200 and the body decodes as
  JSON, and the result of its exception handler (an error without response field) when the
  status is 200 and decoding raises; the push submitter returns success with the raw body
  for 200 and 202; every other status gives an error whose message holds the status code
  and whose response field holds the raw body.
\<close>

theorem http_status_results:
  "(fst (bing_submit_urls self rnd post urls site_url limit) = [req] \<and> post req = Inr r \<longrightarrow>
      snd (bing_submit_urls self rnd post urls site_url limit) =
        (if status_code r = 200 then
           (case resp_json r of
              Inr j \<Rightarrow> \<lparr>status = ''success'', message = SubmittedToBing (length urls),
                        response = Some (Decoded j)\<rparr>
            | Inl e \<Rightarrow> submit_handler e)
         else \<lparr>status = ''error'', message = FailedStatus (status_code r),
               response = Some (Raw (resp_text r))\<rparr>))
   \<and> (fst (indexnow_submit_urls self' post urls site_url) = [req'] \<and> post req' = Inr r' \<longrightarrow>
      snd (indexnow_submit_urls self' post urls site_url) =
        (if status_code r' = 200 \<or> status_code r' = 202 then
           \<lparr>status = ''success'', message = SubmittedStatus (status_code r'),
            response = Some (Raw (resp_text r'))\<rparr>
         else \<lparr>status = ''error'', message = FailedStatus (status_code r'),
               response = Some (Raw (resp_text r'))\<rparr>))
   \<and> status (submit_handler e) = ''error'' \<and> response (submit_handler e) = None"
proof (intro conjI impI)
  assume "fst (bing_submit_urls self rnd post urls site_url limit) = [req] \<and> post req = Inr r"
  then show "snd (bing_submit_urls self rnd post urls site_url limit) =
        (if status_code r = 200 then
           (case resp_json r of
              Inr j \<Rightarrow> \<lparr>status = ''success'', message = SubmittedToBing (length urls),
                        response = Some (Decoded j)\<rparr>
            | Inl e \<Rightarrow> submit_handler e)
         else \<lparr>status = ''error'', message = FailedStatus (status_code r),
               response = Some (Raw (resp_text r))\<rparr>)"
    by (auto simp: bing_submit_urls_def Let_def split: option.splits if_splits sum.splits)
next
  assume "fst (indexnow_submit_urls self' post urls site_url) = [req'] \<and> post req' = Inr r'"
  then show "snd (indexnow_submit_urls self' post urls site_url) =
        (if status_code r' = 200 \<or> status_code r' = 202 then
           \<lparr>status = ''success'', message = SubmittedStatus (status_code r'),
            response = Some (Raw (resp_text r'))\<rparr>
         else \<lparr>status = ''error'', message = FailedStatus (status_code r'),
               response = Some (Raw (resp_text r'))\<rparr>)"
    by (auto simp: indexnow_submit_urls_def Let_def split: option.splits if_splits sum.splits)
next
  show "status (submit_handler e) = ''error''"
    by (simp add: submit_handler_def split: exn.splits)
  show "response (submit_handler e) = None"
    by (simp add: submit_handler_def split: exn.splits)
qed

theorem http_status_results_witness:
  "fst (bing_submit_urls (BingSubmitter (Some ''k'')) draws_one net_404 [''u''] ''s'' 10) =
     [\<lparr>url = ''https://ssl.bing.com/webmaster/api.svc/json/SubmitUrlbatch?apikey=k'',
       req_headers = [(''Content-Type'', ''application/json; charset=utf-8''),
                      (''Host'', ''ssl.bing.com'')],
       data = BingData ''s'' [''u''], timeout = 20\<rparr>]
   \<and> snd (bing_submit_urls (BingSubmitter (Some ''k'')) draws_one net_404 [''u''] ''s'' 10) =
       \<lparr>status = ''error'', message = FailedStatus 404, response = Some (Raw ''Not Found'')\<rparr>
   \<and> fst (indexnow_submit_urls (IndexNowSubmitter (Some ''k'')) net_404 [''u''] ''s'') =
     [\<lparr>url = ''https://api.indexnow.org/IndexNow'',
       req_headers = [(''Content-Type'', ''application/json; charset=utf-8''),
                      (''Host'', ''api.indexnow.org'')],
       data = IndexNowData ''s'' ''k'' ''s/k.txt'' [''u''], timeout = 20\<rparr>]
   \<and> snd (indexnow_submit_urls (IndexNowSubmitter (Some ''k'')) net_404 [''u''] ''s'') =
       \<lparr>status = ''error'', message = FailedStatus 404, response = Some (Raw ''Not Found'')\<rparr>"
proof -
  let ?rb = "\<lparr>url = ''https://ssl.bing.com/webmaster/api.svc/json/SubmitUrlbatch?apikey=k'',
       req_headers = [(''Content-Type'', ''application/json; charset=utf-8''),
                      (''Host'', ''ssl.bing.com'')],
       data = BingData ''s'' [''u''], timeout = 20\<rparr>"
  let ?ri = "\<lparr>url = ''https://api.indexnow.org/IndexNow'',
       req_headers = [(''Content-Type'', ''application/json; charset=utf-8''),
                      (''Host'', ''api.indexnow.org'')],
       data = IndexNowData ''s'' ''k'' ''s/k.txt'' [''u''], timeout = 20\<rparr>"
  let ?r = "\<lparr>status_code = 404, resp_text = ''Not Found'',
          resp_json = Inl (RequestException ''Expecting value'')\<rparr>"
  have b: "fst (bing_submit_urls (BingSubmitter (Some ''k'')) draws_one net_404 [''u''] ''s'' 10)
      = [?rb]"
    by (simp add: bing_sent_cases BingSubmitter_def random_sample_def randbelow_def
        draws_one_def Let_def)
  have i: "fst (indexnow_submit_urls (IndexNowSubmitter (Some ''k'')) net_404 [''u''] ''s'')
      = [?ri]"
    by (simp add: indexnow_sent_cases IndexNowSubmitter_def)
  have n: "net_404 ?rb = Inr ?r" "net_404 ?ri = Inr ?r"
    by (simp_all add: net_404_def)
  from http_status_results [of "BingSubmitter (Some ''k'')" draws_one net_404 "[''u'']" "''s''"
      10 ?rb ?r "IndexNowSubmitter (Some ''k'')" ?ri ?r] b i n
  show ?thesis by simp
qed

text \<open>
  C3 as stated fails: the batch submitter gets status 200 with a body that is not JSON,
  \<^verbatim>\<open>response.json()\<close> raises inside the \<^verbatim>\<open>try\<close>, and the result is an error.
\<close>

theorem bing_200_undecodable_counterexample:
  "net_200_html (hd (fst (bing_submit_urls (BingSubmitter (Some ''k'')) draws_one net_200_html
            [''https://example.com/a''] ''https://example.com'' 10))) =
     Inr \<lparr>status_code = 200, resp_text = ''<html></html>'',
          resp_json = Inl (RequestException ''Expecting value'')\<rparr>
   \<and> length (fst (bing_submit_urls (BingSubmitter (Some ''k'')) draws_one net_200_html
            [''https://example.com/a''] ''https://example.com'' 10)) = 1
   \<and> snd (bing_submit_urls (BingSubmitter (Some ''k'')) draws_one net_200_html
            [''https://example.com/a''] ''https://example.com'' 10) =
     \<lparr>status = ''error'', message = NetworkError (RequestException ''Expecting value''),
      response = None\<rparr>"
  by (simp add: bing_submit_urls_def BingSubmitter_def random_sample_def randbelow_def
      draws_one_def net_200_html_def submit_handler_def Let_def)

text \<open>
  C6. With a key, the push submitter posts one request whose payload is the site URL as
  host, the key, the key location \<open>siteUrl + "/" + key + ".txt"\<close> and the whole input list,
  in its order.
\<close>

theorem indexnow_payload_full_list:
  "api_key self = Some k \<Longrightarrow> k \<noteq> [] \<Longrightarrow>
   fst (indexnow_submit_urls self post urls site_url) =
     [\<lparr>url = base_url self, req_headers = headers self,
       data = IndexNowData site_url k (site_url @ ''/'' @ k @ ''.txt'') urls,
       timeout = 20\<rparr>]"
  by (simp add: indexnow_sent_cases)

theorem indexnow_payload_full_list_witness:
  "api_key (IndexNowSubmitter (Some ''key'')) = Some ''key'' \<and> ''key'' \<noteq> []
   \<and> fst (indexnow_submit_urls (IndexNowSubmitter (Some ''key'')) net_down
        [''https://example.com/a'', ''https://example.com/b''] ''https://example.com'') =
     [\<lparr>url = ''https://api.indexnow.org/IndexNow'',
       req_headers = [(''Content-Type'', ''application/json; charset=utf-8''),
                      (''Host'', ''api.indexnow.org'')],
       data = IndexNowData ''https://example.com'' ''key'' ''https://example.com/key.txt''
                [''https://example.com/a'', ''https://example.com/b''],
       timeout = 20\<rparr>]"
proof -
  have h: "api_key (IndexNowSubmitter (Some ''key'')) = Some ''key''" "''key'' \<noteq> []"
    by (simp_all add: IndexNowSubmitter_def)
  from h indexnow_payload_full_list [OF h, of net_down
      "[''https://example.com/a'', ''https://example.com/b'']" "''https://example.com''"]
  show ?thesis by (simp add: IndexNowSubmitter_def)
qed

text \<open>
  C10. When the input has at most \<open>limit\<close> URLs, every payload the batch submitter posts
  holds each input URL as often as the input does. Its order is the generator's: the first
  URL sent is the one at the first draw, and in the example run the two URLs go out swapped.
\<close>

theorem bing_full_list_permuted:
  "(int (length urls) \<le> limit \<longrightarrow>
      (\<forall>req \<in> set (fst (bing_submit_urls self rnd post urls site_url limit)).
         mset (urlList (data req)) = mset urls
       \<and> (urls \<noteq> [] \<longrightarrow> hd (urlList (data req)) = urls ! (rnd 0 mod length urls))))
   \<and> urlList (data (hd (fst (bing_submit_urls (BingSubmitter (Some ''k'')) draws_one net_down
        [''a'', ''b''] ''s'' 10)))) = [''b'', ''a'']"
proof (intro conjI impI ballI)
  fix req
  assume le: "int (length urls) \<le> limit"
    and "req \<in> set (fst (bing_submit_urls self rnd post urls site_url limit))"
  then have "\<exists>ys. random_sample rnd urls (int (length urls)) = Inr ys
      \<and> data req = BingData site_url ys"
    by (auto simp: bing_sent_cases min_def split: option.splits if_splits sum.splits)
  then obtain ys where ys: "random_sample rnd urls (int (length urls)) = Inr ys"
    and d: "data req = BingData site_url ys"
    by blast
  from random_sample_all [OF ys] d show "mset (urlList (data req)) = mset urls" by simp
  assume ne: "urls \<noteq> []"
  then obtain m where m: "length urls = Suc m" by (cases urls) auto
  from ys have "ys = sample_loop rnd 0 (Suc m) urls"
    by (simp add: random_sample_def m [symmetric])
  then have "hd ys = urls ! (rnd 0 mod length urls)"
    by (simp add: Let_def randbelow_def)
  with d show "hd (urlList (data req)) = urls ! (rnd 0 mod length urls)" by simp
next
  show "urlList (data (hd (fst (bing_submit_urls (BingSubmitter (Some ''k'')) draws_one net_down
        [''a'', ''b''] ''s'' 10)))) = [''b'', ''a'']"
    by (simp add: bing_sent_cases BingSubmitter_def random_sample_def randbelow_def
      draws_one_def numeral_2_eq_2 Let_def)
qed

theorem bing_full_list_permuted_witness:
  "int (length [''a'', ''b'']) \<le> 10
   \<and> fst (bing_submit_urls (BingSubmitter (Some ''k'')) draws_one net_down
        [''a'', ''b''] ''s'' 10) =
     [\<lparr>url = ''https://ssl.bing.com/webmaster/api.svc/json/SubmitUrlbatch?apikey=k'',
       req_headers = [(''Content-Type'', ''application/json; charset=utf-8''),
                      (''Host'', ''ssl.bing.com'')],
       data = BingData ''s'' [''b'', ''a''], timeout = 20\<rparr>]
   \<and> mset [''b'', ''a''] = mset [''a'', ''b'']
   \<and> hd [''b'', ''a''] = [''a'', ''b''] ! (draws_one 0 mod 2)"
proof -
  have s: "fst (bing_submit_urls (BingSubmitter (Some ''k'')) draws_one net_down
        [''a'', ''b''] ''s'' 10) =
     [\<lparr>url = ''https://ssl.bing.com/webmaster/api.svc/json/SubmitUrlbatch?apikey=k'',
       req_headers = [(''Content-Type'', ''application/json; charset=utf-8''),
                      (''Host'', ''ssl.bing.com'')],
       data = BingData ''s'' [''b'', ''a''], timeout = 20\<rparr>]"
    by (simp add: bing_sent_cases BingSubmitter_def random_sample_def randbelow_def
      draws_one_def numeral_2_eq_2 Let_def)
  from bing_full_list_permuted [of "[''a'', ''b'']" 10 "BingSubmitter (Some ''k'')" draws_one
      net_down "''s''"] s
  show ?thesis by (simp add: draws_one_def)
qed

section \<open>Claims about the parser and main\<close>

lemma parse_bound_well_formed:
  assumes "fs (sitemap_file self) = Inr root"
    and "\<forall>item \<in> set (findall_descendants ''item'' root). has_link_text item"
  shows "parse_rss_sitemap True fs self lg =
     Inr (map (\<lambda>item. strip (the (link_text item))) (findall_descendants ''item'' root),
          lg @ [(INFO, ParsedCount (length (findall_descendants ''item'' root)))])"
proof -
  from assms(2) have "filter has_link_text (findall_descendants ''item'' root) =
      findall_descendants ''item'' root"
    by (simp add: filter_id_conv)
  then have "extract_links root =
      map (\<lambda>item. strip (the (link_text item))) (findall_descendants ''item'' root)"
    by (simp add: extract_links_eq)
  with assms(1) show ?thesis by (simp add: parse_bound_returns)
qed

lemma main_sent:
  assumes "parse_rss_sitemap bound fs \<lparr>sitemap_file = p\<rparr> [] = Inr (urls, lg)"
    and "urls \<noteq> []"
    and "BING_API_KEY env = Some kb" "kb \<noteq> []"
    and "INDEXNOW_API_KEY env = Some ki" "ki \<noteq> []"
    and "site_origin urls = Inr s"
  shows "\<exists>lg' chosen. main bound fs env rnd post p =
     Inr (lg',
       [\<lparr>url = ''https://ssl.bing.com/webmaster/api.svc/json/SubmitUrlbatch?apikey='' @ kb,
         req_headers = [(''Content-Type'', ''application/json; charset=utf-8''),
                        (''Host'', ''ssl.bing.com'')],
         data = BingData s chosen, timeout = 20\<rparr>,
        \<lparr>url = ''https://api.indexnow.org/IndexNow'',
         req_headers = [(''Content-Type'', ''application/json; charset=utf-8''),
                        (''Host'', ''api.indexnow.org'')],
         data = IndexNowData s ki (s @ ''/'' @ ki @ ''.txt'') urls, timeout = 20\<rparr>])"
proof -
  have b: "fst (bing_submit_urls (BingSubmitter (Some kb)) rnd post urls s 10) =
      [\<lparr>url = ''https://ssl.bing.com/webmaster/api.svc/json/SubmitUrlbatch?apikey='' @ kb,
         req_headers = [(''Content-Type'', ''application/json; charset=utf-8''),
                        (''Host'', ''ssl.bing.com'')],
         data = BingData s (sample_loop rnd 0 (nat (min (int (length urls)) 10)) urls),
         timeout = 20\<rparr>]"
    using assms(4) by (simp add: bing_sent_cases BingSubmitter_def random_sample_def)
  have i: "fst (indexnow_submit_urls (IndexNowSubmitter (Some ki)) post urls s) =
      [\<lparr>url = ''https://api.indexnow.org/IndexNow'',
         req_headers = [(''Content-Type'', ''application/json; charset=utf-8''),
                        (''Host'', ''api.indexnow.org'')],
         data = IndexNowData s ki (s @ ''/'' @ ki @ ''.txt'') urls, timeout = 20\<rparr>]"
    using assms(6) by (simp add: indexnow_sent_cases IndexNowSubmitter_def)
  from assms show ?thesis
    by (simp add: main_def truthy_def Let_def split_beta b i)
qed

text \<open>
  C4. The sitemap \<open>example_rss\<close> is well formed and has two items, each with a link child
  holding non-empty text. Run as the script runs it, with the module global \<^verbatim>\<open>logger\<close>
  unbound, \<^verbatim>\<open>parse_rss_sitemap\<close> returns nothing: the loop builds the two trimmed
  strings, then the log call after the loop raises NameError, and so does the log call of
  the handler that catches it.
\<close>

theorem parse_well_formed_script_run:
  "example_files ''./sitemap.xml'' = Inr example_rss
   \<and> map link_text (findall_descendants ''item'' example_rss) =
       [Some ('' https://example.com/a/b'' @ [CHR 0x0A]), Some ''https://example.com/c'']
   \<and> extract_links example_rss = [''https://example.com/a/b'', ''https://example.com/c'']
   \<and> parse_body False example_files \<lparr>sitemap_file = ''./sitemap.xml''\<rparr> [] = Inl NameError
   \<and> parse_rss_sitemap False example_files \<lparr>sitemap_file = ''./sitemap.xml''\<rparr> [] =
       Inl NameError"
  by (simp add: example_files_def example_items link_text_def find_child_def example_links
      parse_unbound_raises parse_body_def global_logger_def)

text \<open>
  C5. For a missing file and for malformed XML the handler is entered, and its own log
  call reads the unbound global: \<^verbatim>\<open>parse_rss_sitemap\<close> raises NameError to its caller
  instead of returning the empty list.
\<close>

theorem parse_failure_script_run:
  "example_files ''./missing.xml'' = Inl FileNotFoundError
   \<and> parse_rss_sitemap False example_files \<lparr>sitemap_file = ''./missing.xml''\<rparr> [] =
       Inl NameError
   \<and> example_files ''./broken.xml'' = Inl (ParseError ''mismatched tag'')
   \<and> parse_rss_sitemap False example_files \<lparr>sitemap_file = ''./broken.xml''\<rparr> [] =
       Inl NameError"
  by (simp add: example_files_def parse_unbound_raises)

text \<open>
  C7. Two exceptions leave \<^verbatim>\<open>main\<close> after its arguments are parsed and its logger is
  set up. Run as a script, every input ends in the NameError of the parser's log call. And
  where the module global is bound, a first URL with fewer than two slashes makes the
  site-origin expression raise IndexError.
\<close>

theorem main_exception_escapes:
  "run_script fs env rnd post path = Inl NameError
   \<and> main True example_files example_env draws_one net_down ''./bare.xml'' = Inl IndexError
   \<and> main True example_files example_env draws_one net_down ''./blank.xml'' = Inl IndexError"
  by (simp add: run_script_def main_def parse_unbound_raises parse_bound_returns
      example_files_def bare_links blank_links site_origin_bare site_origin_blank
      example_env_def truthy_def)

text \<open>
  C8. The site origin of a first URL \<open>scheme//host\<close> or \<open>scheme//host/path\<close> is
  \<open>scheme//host\<close>; for \<^verbatim>\<open>https://example.com/a/b\<close> it is \<^verbatim>\<open>https://example.com\<close>. When
  \<^verbatim>\<open>main\<close> gets as far as submitting, it posts two requests, the batch one with that value
  as \<^verbatim>\<open>siteUrl\<close> and the push one with the same value as \<^verbatim>\<open>host\<close>.
\<close>

theorem site_origin_passed_to_both:
  "site_origin (''https://example.com/a/b'' # rest) = Inr ''https://example.com''
   \<and> (CHR ''/'' \<notin> set scheme \<and> CHR ''/'' \<notin> set h \<and> (path = [] \<or> hd path = CHR ''/'') \<longrightarrow>
        site_origin ((scheme @ ''//'' @ h @ path) # rest) = Inr (scheme @ ''//'' @ h))
   \<and> (parse_rss_sitemap bound fs \<lparr>sitemap_file = p\<rparr> [] = Inr (urls, lg) \<and> urls \<noteq> []
        \<and> BING_API_KEY env = Some kb \<and> kb \<noteq> [] \<and> INDEXNOW_API_KEY env = Some ki \<and> ki \<noteq> []
        \<and> site_origin urls = Inr s \<longrightarrow>
      (\<exists>lg' r1 r2. main bound fs env rnd post p = Inr (lg', [r1, r2])
          \<and> data r1 = BingData s (urlList (data r1))
          \<and> data r2 = IndexNowData s ki (s @ ''/'' @ ki @ ''.txt'') urls))"
proof (intro conjI impI)
  show "site_origin (''https://example.com/a/b'' # rest) = Inr ''https://example.com''"
    by (rule site_origin_example)
next
  assume "CHR ''/'' \<notin> set scheme \<and> CHR ''/'' \<notin> set h \<and> (path = [] \<or> hd path = CHR ''/'')"
  then show "site_origin ((scheme @ ''//'' @ h @ path) # rest) = Inr (scheme @ ''//'' @ h)"
    using site_origin_shape [of scheme h path rest] by blast
next
  assume a: "parse_rss_sitemap bound fs \<lparr>sitemap_file = p\<rparr> [] = Inr (urls, lg) \<and> urls \<noteq> []
        \<and> BING_API_KEY env = Some kb \<and> kb \<noteq> [] \<and> INDEXNOW_API_KEY env = Some ki \<and> ki \<noteq> []
        \<and> site_origin urls = Inr s"
  then obtain lg' chosen where "main bound fs env rnd post p =
     Inr (lg',
       [\<lparr>url = ''https://ssl.bing.com/webmaster/api.svc/json/SubmitUrlbatch?apikey='' @ kb,
         req_headers = [(''Content-Type'', ''application/json; charset=utf-8''),
                        (''Host'', ''ssl.bing.com'')],
         data = BingData s chosen, timeout = 20\<rparr>,
        \<lparr>url = ''https://api.indexnow.org/IndexNow'',
         req_headers = [(''Content-Type'', ''application/json; charset=utf-8''),
                        (''Host'', ''api.indexnow.org'')],
         data = IndexNowData s ki (s @ ''/'' @ ki @ ''.txt'') urls, timeout = 20\<rparr>])"
    using main_sent [of bound fs p urls lg env kb ki s rnd post] by blast
  then show "\<exists>lg' r1 r2. main bound fs env rnd post p = Inr (lg', [r1, r2])
          \<and> data r1 = BingData s (urlList (data r1))
          \<and> data r2 = IndexNowData s ki (s @ ''/'' @ ki @ ''.txt'') urls"
    by simp
qed

lemma example_parse_bound:
  "parse_rss_sitemap True example_files \<lparr>sitemap_file = ''./sitemap.xml''\<rparr> [] =
     Inr ([''https://example.com/a/b'', ''https://example.com/c''], [(INFO, ParsedCount 2)])"
  by (simp add: parse_bound_returns example_files_def example_links)

theorem site_origin_passed_to_both_witness:
  "CHR ''/'' \<notin> set ''https:'' \<and> CHR ''/'' \<notin> set ''example.com''
   \<and> site_origin [''https://example.com/a/b'', ''https://example.com/c''] =
       Inr ''https://example.com''
   \<and> parse_rss_sitemap True example_files \<lparr>sitemap_file = ''./sitemap.xml''\<rparr> [] =
       Inr ([''https://example.com/a/b'', ''https://example.com/c''], [(INFO, ParsedCount 2)])
   \<and> BING_API_KEY example_env = Some ''bingkey'' \<and> INDEXNOW_API_KEY example_env = Some ''nowkey''
   \<and> map data (snd (projr (main True example_files example_env draws_one net_down
        ''./sitemap.xml''))) =
       [BingData ''https://example.com'' [''https://example.com/c'', ''https://example.com/a/b''],
        IndexNowData ''https://example.com'' ''nowkey'' ''https://example.com/nowkey.txt''
          [''https://example.com/a/b'', ''https://example.com/c'']]"
proof -
  let ?urls = "[''https://example.com/a/b'', ''https://example.com/c'']"
  have so: "site_origin ?urls = Inr ''https://example.com''"
    by (rule site_origin_example)
  have k: "BING_API_KEY example_env = Some ''bingkey''"
    "INDEXNOW_API_KEY example_env = Some ''nowkey''"
    by (simp_all add: example_env_def)
  have ev: "map data (snd (projr (main True example_files example_env draws_one net_down
        ''./sitemap.xml''))) =
       [BingData ''https://example.com'' [''https://example.com/c'', ''https://example.com/a/b''],
        IndexNowData ''https://example.com'' ''nowkey'' ''https://example.com/nowkey.txt''
          [''https://example.com/a/b'', ''https://example.com/c'']]"
    by (simp add: main_def example_parse_bound example_env_def truthy_def so Let_def split_beta
        bing_sent_cases indexnow_sent_cases BingSubmitter_def IndexNowSubmitter_def
        random_sample_def randbelow_def draws_one_def numeral_2_eq_2)
  from site_origin_passed_to_both [of "[''https://example.com/c'']" "''https:''"
      "''example.com''" "''/a/b''" True example_files "''./sitemap.xml''" ?urls
      "[(INFO, ParsedCount 2)]" example_env "''bingkey''" "''nowkey''" "''https://example.com''"
      draws_one net_down]
    so k example_parse_bound ev
  show ?thesis by simp
qed

text \<open>
  C9, as amended. A string is appended for exactly the items whose link child has
  non-empty text before trimming, and what is appended is that text trimmed. So the result
  holds an empty string exactly when some item's link text is non-empty and all
  whitespace.
\<close>

theorem link_appended_iff_raw_text:
  "extract_links root =
     map (\<lambda>item. strip (the (link_text item)))
       (filter has_link_text (findall_descendants ''item'' root))
   \<and> length (extract_links root) =
       length (filter has_link_text (findall_descendants ''item'' root))
   \<and> ([] \<in> set (extract_links root) \<longleftrightarrow>
        (\<exists>item \<in> set (findall_descendants ''item'' root).
           \<exists>t. link_text item = Some t \<and> t \<noteq> [] \<and> (\<forall>c \<in> set t. isspace c)))"
proof (intro conjI)
  show eq: "extract_links root =
     map (\<lambda>item. strip (the (link_text item)))
       (filter has_link_text (findall_descendants ''item'' root))"
    by (rule extract_links_eq)
  then show "length (extract_links root) =
       length (filter has_link_text (findall_descendants ''item'' root))"
    by simp
  have "[] \<in> set (extract_links root) \<longleftrightarrow>
      (\<exists>item \<in> set (findall_descendants ''item'' root).
         has_link_text item \<and> strip (the (link_text item)) = [])"
    unfolding eq by (auto simp: image_iff)
  also have "\<dots> \<longleftrightarrow> (\<exists>item \<in> set (findall_descendants ''item'' root).
           \<exists>t. link_text item = Some t \<and> t \<noteq> [] \<and> (\<forall>c \<in> set t. isspace c))"
    by (auto simp: has_link_text_def strip_empty_iff split: option.splits)
  finally show "[] \<in> set (extract_links root) \<longleftrightarrow>
        (\<exists>item \<in> set (findall_descendants ''item'' root).
           \<exists>t. link_text item = Some t \<and> t \<noteq> [] \<and> (\<forall>c \<in> set t. isspace c))" .
qed

theorem link_appended_iff_raw_text_witness:
  "findall_descendants ''item'' blank_link_rss =
     [Element ''item'' None [Element ''link'' (Some ''  '') []]]
   \<and> link_text (Element ''item'' None [Element ''link'' (Some ''  '') []]) = Some ''  ''
   \<and> has_link_text (Element ''item'' None [Element ''link'' (Some ''  '') []])
   \<and> extract_links blank_link_rss = [strip ''  '']
   \<and> length (extract_links blank_link_rss) = 1
   \<and> [] \<in> set (extract_links blank_link_rss)"
proof -
  have f: "findall_descendants ''item'' blank_link_rss =
     [Element ''item'' None [Element ''link'' (Some ''  '') []]]"
    by (simp add: findall_descendants_def blank_link_rss_def)
  have l: "link_text (Element ''item'' None [Element ''link'' (Some ''  '') []]) = Some ''  ''"
    by (simp add: link_text_def find_child_def)
  have sp: "\<forall>c \<in> set ''  ''. isspace c"
    by (simp add: isspace_def)
  from link_appended_iff_raw_text [of blank_link_rss] f l sp
  show ?thesis by (simp add: has_link_text_def strip_def)
qed

text \<open>
  C9 as stated fails: the only link of \<open>blank_link_rss\<close> holds two blanks, which is
  non-empty before trimming and empty after, and the loop appends the empty string.
\<close>

theorem blank_link_appended_counterexample:
  "map link_text (findall_descendants ''item'' blank_link_rss) = [Some ''  '']
   \<and> strip ''  '' = []
   \<and> extract_links blank_link_rss = ['''']
   \<and> parse_rss_sitemap True example_files \<lparr>sitemap_file = ''./blank.xml''\<rparr> [] =
       Inr ([''''], [(INFO, ParsedCount 1)])"
  by (simp add: findall_descendants_def blank_link_rss_def link_text_def find_child_def
      strip_def isspace_def extract_links_def append_link_def parse_bound_returns
      example_files_def)

end
